theory Spec2Isabelle
  imports Main "HOL-Library.Word"
begin

section \<open>Move values, checked arithmetic and aborts\<close>

text \<open>
  The ledger is the Move module \<open>card::card\<close>. Its amounts are \<open>u64\<close>, its identities
  are 32-byte addresses. Move arithmetic on \<open>u64\<close> never wraps: an addition whose sum
  does not fit and a subtraction below zero abort the transaction with the virtual
  machine's arithmetic error, which is none of the module's own abort codes.
\<close>

type_synonym u64 = "64 word"
type_synonym address = "256 word"

text \<open>
  An abort is either an \<open>assert!\<close> of \<open>card::card\<close> with one of its error constants,
  an \<open>assert!\<close> of \<open>sui::balance\<close>, or the arithmetic error of the virtual machine.
\<close>

datatype failure = CardAbort u64 | BalanceAbort u64 | ArithmeticError

datatype status = Success | Aborted failure

definition add_u64 :: "u64 \<Rightarrow> u64 \<Rightarrow> u64 option" where
  "add_u64 a b = (if unat a + unat b < 2 ^ 64 then Some (a + b) else None)"

definition sub_u64 :: "u64 \<Rightarrow> u64 \<Rightarrow> u64 option" where
  "sub_u64 a b = (if unat b \<le> unat a then Some (a - b) else None)"

section \<open>The Sui framework functions the module calls\<close>

text \<open>
  \<open>sui::object\<close>: a \<open>UID\<close> wraps the address of an object. \<open>sui::tx_context\<close>: the
  context of the running transaction knows its sender and derives fresh object
  addresses from the transaction digest and a counter of the objects created so far;
  \<open>derive_id\<close> is that derivation for the digest of this transaction. The counter is
  a \<open>u64\<close> in the framework that no metered transaction can exhaust, so it is a
  natural number here.
\<close>

datatype UID = UID (uid_to_address: address)

record TxContext =
  tx_sender :: address
  derive_id :: "nat \<Rightarrow> address"
  ids_created :: nat

definition tx_context_sender :: "TxContext \<Rightarrow> address" where
  "tx_context_sender c = tx_sender c"

definition fresh_object_address :: "TxContext \<Rightarrow> address \<times> TxContext" where
  "fresh_object_address c =
     (derive_id c (ids_created c), c\<lparr>ids_created := ids_created c + 1\<rparr>)"

definition object_new :: "TxContext \<Rightarrow> UID \<times> TxContext" where
  "object_new c = (let (a, c') = fresh_object_address c in (UID a, c'))"

text \<open>
  \<open>sui::balance\<close>: a \<open>Balance\<close> is a \<open>u64\<close> amount. \<open>join\<close> adds with the checked
  addition of the language; \<open>split\<close> asserts that enough is there (\<open>ENotEnough\<close>)
  and returns what is left together with the part split off.
\<close>

datatype Balance = Balance (balance_value: u64)

definition balance_ENotEnough :: u64 where
  "balance_ENotEnough = 2"

definition balance_zero :: Balance where
  "balance_zero = Balance 0"

definition balance_join :: "Balance \<Rightarrow> Balance \<Rightarrow> failure + Balance" where
  "balance_join self b =
     (case add_u64 (balance_value self) (balance_value b) of
        None \<Rightarrow> Inl ArithmeticError
      | Some v \<Rightarrow> Inr (Balance v))"

definition balance_split :: "Balance \<Rightarrow> u64 \<Rightarrow> failure + (Balance \<times> Balance)" where
  "balance_split self v =
     (if \<not> (balance_value self \<ge> v) then Inl (BalanceAbort balance_ENotEnough)
      else case sub_u64 (balance_value self) v of
             None \<Rightarrow> Inl ArithmeticError
           | Some rest \<Rightarrow> Inr (Balance rest, Balance v))"

text \<open>\<open>sui::coin\<close>: a \<open>Coin\<close> is an object holding a balance.\<close>

record Coin =
  coin_id :: UID
  coin_balance :: Balance

definition coin_value :: "Coin \<Rightarrow> u64" where
  "coin_value c = balance_value (coin_balance c)"

definition coin_into_balance :: "Coin \<Rightarrow> Balance" where
  "coin_into_balance c = coin_balance c"

section \<open>The card, its events and the effects of a transaction\<close>

record Card =
  uid :: UID
  owner :: address
  balance :: Balance
  spending_limit :: u64
  amount_spent :: u64
  is_active :: bool

datatype Event =
    CardCreated (ev_card_id: address) (ev_owner: address) (ev_spending_limit: u64)
  | Deposit (ev_card_id: address) (ev_amount: u64) (ev_new_balance: u64)
  | Spend (ev_card_id: address) (ev_amount: u64) (ev_new_balance: u64)
      (ev_total_spent: u64)
  | DirectTransfer (ev_card_id: address) (ev_recipient: address) (ev_amount: u64)
      (ev_new_balance: u64)

datatype Object = CardObject Card | CoinObject Coin

text \<open>
  What a call works on besides the card it borrows: the transaction context, the
  events emitted so far (\<open>sui::event::emit\<close> appends one) and the objects handed to
  an address so far (\<open>sui::transfer\<close> appends one).
\<close>

record Runtime =
  ctx :: TxContext
  events :: "Event list"
  transfers :: "(Object \<times> address) list"

definition event_emit :: "Event \<Rightarrow> Runtime \<Rightarrow> Runtime" where
  "event_emit e rt = rt\<lparr>events := events rt @ [e]\<rparr>"

definition transfer_transfer :: "Object \<Rightarrow> address \<Rightarrow> Runtime \<Rightarrow> Runtime" where
  "transfer_transfer obj recipient rt = rt\<lparr>transfers := transfers rt @ [(obj, recipient)]\<rparr>"

definition transfer_public_transfer :: "Object \<Rightarrow> address \<Rightarrow> Runtime \<Rightarrow> Runtime" where
  "transfer_public_transfer obj recipient rt = transfer_transfer obj recipient rt"

definition coin_from_balance :: "Balance \<Rightarrow> Runtime \<Rightarrow> Coin \<times> Runtime" where
  "coin_from_balance b rt =
     (let (i, c') = object_new (ctx rt)
      in (\<lparr>coin_id = i, coin_balance = b\<rparr>, rt\<lparr>ctx := c'\<rparr>))"

section \<open>Module \<open>card::card\<close>\<close>

definition ENotOwner :: u64 where
  "ENotOwner = 0"

definition EInsufficientBalance :: u64 where
  "EInsufficientBalance = 1"

definition EExceedsSpendingLimit :: u64 where
  "EExceedsSpendingLimit = 2"

definition EInactiveCard :: u64 where
  "EInactiveCard = 3"

text \<open>
  Every entry function takes the card it borrows mutably and returns it as it is when
  the function stops: after the last statement, or at the statement that aborts. The
  card returned with \<open>Aborted\<close> is therefore the card as the aborting statement found
  it, before the virtual machine discards the transaction.
\<close>

definition create_card :: "u64 \<Rightarrow> Runtime \<Rightarrow> Runtime" where
  "create_card limit rt =
     (let sender = tx_context_sender (ctx rt);
          (i, c') = object_new (ctx rt);
          rt = rt\<lparr>ctx := c'\<rparr>;
          crd = \<lparr>uid = i, owner = sender, balance = balance_zero,
                  spending_limit = limit, amount_spent = 0, is_active = True\<rparr>;
          card_id = uid_to_address (uid crd);
          rt = event_emit (CardCreated card_id sender limit) rt
      in transfer_transfer (CardObject crd) sender rt)"

definition deposit :: "Card \<Rightarrow> Coin \<Rightarrow> Runtime \<Rightarrow> status \<times> Card \<times> Runtime" where
  "deposit crd payment rt =
     (let sender = tx_context_sender (ctx rt) in
      if sender \<noteq> owner crd then (Aborted (CardAbort ENotOwner), crd, rt)
      else if \<not> is_active crd then (Aborted (CardAbort EInactiveCard), crd, rt)
      else
        let amount = coin_value payment;
            deposit_balance = coin_into_balance payment;
            card_id = uid_to_address (uid crd)
        in case balance_join (balance crd) deposit_balance of
             Inl e \<Rightarrow> (Aborted e, crd, rt)
           | Inr joined \<Rightarrow>
               let crd = crd\<lparr>balance := joined\<rparr>;
                   rt = event_emit
                          (Deposit card_id amount (balance_value (balance crd))) rt
               in (Success, crd, rt))"

definition spend :: "Card \<Rightarrow> u64 \<Rightarrow> address \<Rightarrow> Runtime \<Rightarrow> status \<times> Card \<times> Runtime" where
  "spend crd amount recipient rt =
     (let sender = tx_context_sender (ctx rt) in
      if sender \<noteq> owner crd then (Aborted (CardAbort ENotOwner), crd, rt)
      else if \<not> is_active crd then (Aborted (CardAbort EInactiveCard), crd, rt)
      else if \<not> (balance_value (balance crd) \<ge> amount)
        then (Aborted (CardAbort EInsufficientBalance), crd, rt)
      else case add_u64 (amount_spent crd) amount of
        None \<Rightarrow> (Aborted ArithmeticError, crd, rt)
      | Some potential_spent \<Rightarrow>
          if \<not> (potential_spent \<le> spending_limit crd)
            then (Aborted (CardAbort EExceedsSpendingLimit), crd, rt)
          else (case balance_split (balance crd) amount of
            Inl e \<Rightarrow> (Aborted e, crd, rt)
          | Inr (rest, payment) \<Rightarrow>
              let crd = crd\<lparr>balance := rest\<rparr>;
                  (pay_coin, rt) = coin_from_balance payment rt;
                  rt = transfer_public_transfer (CoinObject pay_coin) recipient rt;
                  crd = crd\<lparr>amount_spent := potential_spent\<rparr>;
                  card_id = uid_to_address (uid crd);
                  rt = event_emit
                         (Spend card_id amount (balance_value (balance crd))
                            (amount_spent crd)) rt
              in (Success, crd, rt)))"

definition spend_to_owner :: "Card \<Rightarrow> u64 \<Rightarrow> Runtime \<Rightarrow> status \<times> Card \<times> Runtime" where
  "spend_to_owner crd amount rt =
     (let sender = tx_context_sender (ctx rt) in spend crd amount sender rt)"

definition direct_transfer ::
  "Card \<Rightarrow> u64 \<Rightarrow> address \<Rightarrow> Runtime \<Rightarrow> status \<times> Card \<times> Runtime" where
  "direct_transfer crd amount recipient rt =
     (let sender = tx_context_sender (ctx rt) in
      if sender \<noteq> owner crd then (Aborted (CardAbort ENotOwner), crd, rt)
      else if \<not> is_active crd then (Aborted (CardAbort EInactiveCard), crd, rt)
      else if \<not> (balance_value (balance crd) \<ge> amount)
        then (Aborted (CardAbort EInsufficientBalance), crd, rt)
      else case balance_split (balance crd) amount of
        Inl e \<Rightarrow> (Aborted e, crd, rt)
      | Inr (rest, payment) \<Rightarrow>
          let crd = crd\<lparr>balance := rest\<rparr>;
              (pay_coin, rt) = coin_from_balance payment rt;
              rt = transfer_public_transfer (CoinObject pay_coin) recipient rt;
              card_id = uid_to_address (uid crd);
              rt = event_emit
                     (DirectTransfer card_id recipient amount
                        (balance_value (balance crd))) rt
          in (Success, crd, rt))"

definition get_card_info :: "Card \<Rightarrow> address \<times> u64 \<times> u64 \<times> u64 \<times> bool" where
  "get_card_info crd =
     (owner crd, balance_value (balance crd), spending_limit crd,
      amount_spent crd, is_active crd)"

definition deactivate_card :: "Card \<Rightarrow> Runtime \<Rightarrow> status \<times> Card \<times> Runtime" where
  "deactivate_card crd rt =
     (let sender = tx_context_sender (ctx rt) in
      if sender \<noteq> owner crd then (Aborted (CardAbort ENotOwner), crd, rt)
      else (Success, crd\<lparr>is_active := False\<rparr>, rt))"

definition reactivate_card :: "Card \<Rightarrow> Runtime \<Rightarrow> status \<times> Card \<times> Runtime" where
  "reactivate_card crd rt =
     (let sender = tx_context_sender (ctx rt) in
      if sender \<noteq> owner crd then (Aborted (CardAbort ENotOwner), crd, rt)
      else (Success, crd\<lparr>is_active := True\<rparr>, rt))"

definition update_spending_limit ::
  "Card \<Rightarrow> u64 \<Rightarrow> Runtime \<Rightarrow> status \<times> Card \<times> Runtime" where
  "update_spending_limit crd new_limit rt =
     (let sender = tx_context_sender (ctx rt) in
      if sender \<noteq> owner crd then (Aborted (CardAbort ENotOwner), crd, rt)
      else (Success, crd\<lparr>spending_limit := new_limit\<rparr>, rt))"

definition withdraw :: "Card \<Rightarrow> u64 \<Rightarrow> Runtime \<Rightarrow> status \<times> Card \<times> Runtime" where
  "withdraw crd amount rt =
     (let sender = tx_context_sender (ctx rt) in
      if sender \<noteq> owner crd then (Aborted (CardAbort ENotOwner), crd, rt)
      else if \<not> (balance_value (balance crd) \<ge> amount)
        then (Aborted (CardAbort EInsufficientBalance), crd, rt)
      else case balance_split (balance crd) amount of
        Inl e \<Rightarrow> (Aborted e, crd, rt)
      | Inr (rest, withdraw_balance) \<Rightarrow>
          let crd = crd\<lparr>balance := rest\<rparr>;
              (withdraw_coin, rt) = coin_from_balance withdraw_balance rt;
              rt = transfer_public_transfer (CoinObject withdraw_coin) sender rt
          in (Success, crd, rt))"

section \<open>Sequences of calls\<close>

text \<open>
  One call of an entry function on a card; a deposit brings the coin it pays in. Each
  call of a sequence is a transaction of its own, with its own context; the sequence
  goes on with the card the call left, and ends at the first call that aborts.
\<close>

datatype call =
    DepositCall Coin
  | SpendCall u64 address
  | SpendToOwnerCall u64
  | DirectTransferCall u64 address
  | WithdrawCall u64
  | DeactivateCall
  | ReactivateCall
  | UpdateSpendingLimitCall u64

fun apply_call :: "call \<Rightarrow> Card \<Rightarrow> Runtime \<Rightarrow> status \<times> Card \<times> Runtime" where
  "apply_call (DepositCall payment) crd rt = deposit crd payment rt"
| "apply_call (SpendCall amount recipient) crd rt = spend crd amount recipient rt"
| "apply_call (SpendToOwnerCall amount) crd rt = spend_to_owner crd amount rt"
| "apply_call (DirectTransferCall amount recipient) crd rt =
     direct_transfer crd amount recipient rt"
| "apply_call (WithdrawCall amount) crd rt = withdraw crd amount rt"
| "apply_call DeactivateCall crd rt = deactivate_card crd rt"
| "apply_call ReactivateCall crd rt = reactivate_card crd rt"
| "apply_call (UpdateSpendingLimitCall new_limit) crd rt =
     update_spending_limit crd new_limit rt"

definition new_runtime :: "TxContext \<Rightarrow> Runtime" where
  "new_runtime c = \<lparr>ctx = c, events = [], transfers = []\<rparr>"

fun run_calls :: "(TxContext \<times> call) list \<Rightarrow> Card \<Rightarrow> Card option" where
  "run_calls [] crd = Some crd"
| "run_calls ((c, x) # rest) crd =
     (case apply_call x crd (new_runtime c) of
        (Success, crd', rt') \<Rightarrow> run_calls rest crd'
      | (Aborted e, crd', rt') \<Rightarrow> None)"

fun deposited :: "call \<Rightarrow> nat" where
  "deposited (DepositCall payment) = unat (coin_value payment)"
| "deposited x = 0"

fun moved_out :: "call \<Rightarrow> nat" where
  "moved_out (SpendCall amount recipient) = unat amount"
| "moved_out (SpendToOwnerCall amount) = unat amount"
| "moved_out (DirectTransferCall amount recipient) = unat amount"
| "moved_out (WithdrawCall amount) = unat amount"
| "moved_out x = 0"

section \<open>Concrete transactions\<close>

text \<open>
  The owner of the module's tests, a second address, a transaction context for a
  sender, and a card as the tests have it after a deposit of 500 under a limit of 1000.
\<close>

definition OWNER :: address where
  "OWNER = 0xCAFE"

definition STRANGER :: address where
  "STRANGER = 0xB0B"

definition tx_of :: "address \<Rightarrow> TxContext" where
  "tx_of a = \<lparr>tx_sender = a, derive_id = (\<lambda>n. word_of_nat (n + 4096)), ids_created = 0\<rparr>"

definition funded_card :: Card where
  "funded_card =
     \<lparr>uid = UID 0xC0, owner = OWNER, balance = Balance 500, spending_limit = 1000,
      amount_spent = 0, is_active = True\<rparr>"

definition coin_of :: "u64 \<Rightarrow> Coin" where
  "coin_of v = \<lparr>coin_id = UID 0xC1, coin_balance = Balance v\<rparr>"

definition inactive_card :: Card where
  "inactive_card = funded_card\<lparr>is_active := False\<rparr>"

definition full_card :: Card where
  "full_card = funded_card\<lparr>balance := Balance 0xFFFFFFFFFFFFFFFF\<rparr>"

text \<open>
  A card whose spending counter has reached the largest \<open>u64\<close>, and calls that bring a
  card created with that limit there: the owner pays in 2^63 units, spends it to
  themselves, pays it in again and spends all but one unit.
\<close>

definition saturated_card :: Card where
  "saturated_card =
     \<lparr>uid = UID 4096, owner = OWNER, balance = Balance 1,
      spending_limit = 0xFFFFFFFFFFFFFFFF, amount_spent = 0xFFFFFFFFFFFFFFFF,
      is_active = True\<rparr>"

definition saturating_calls :: "(TxContext \<times> call) list" where
  "saturating_calls =
     [(tx_of OWNER, DepositCall (coin_of 0x8000000000000000)),
      (tx_of OWNER, SpendToOwnerCall 0x8000000000000000),
      (tx_of OWNER, DepositCall (coin_of 0x8000000000000000)),
      (tx_of OWNER, SpendToOwnerCall 0x7FFFFFFFFFFFFFFF)]"

definition example_calls :: "(TxContext \<times> call) list" where
  "example_calls =
     [(tx_of OWNER, DepositCall (coin_of 500)),
      (tx_of OWNER, SpendCall 200 STRANGER),
      (tx_of OWNER, DeactivateCall),
      (tx_of OWNER, WithdrawCall 100),
      (tx_of OWNER, ReactivateCall),
      (tx_of OWNER, UpdateSpendingLimitCall 100),
      (tx_of OWNER, DirectTransferCall 50 STRANGER)]"

text \<open>What a call returns: how it ended, the card and the runtime it left.\<close>

abbreviation status_of :: "status \<times> Card \<times> Runtime \<Rightarrow> status" where
  "status_of r \<equiv> fst r"

abbreviation card_of :: "status \<times> Card \<times> Runtime \<Rightarrow> Card" where
  "card_of r \<equiv> fst (snd r)"

abbreviation runtime_of :: "status \<times> Card \<times> Runtime \<Rightarrow> Runtime" where
  "runtime_of r \<equiv> snd (snd r)"

section \<open>Checked arithmetic and the framework calls\<close>

lemmas framework_defs =
  tx_context_sender_def fresh_object_address_def object_new_def balance_zero_def
  coin_value_def coin_into_balance_def event_emit_def transfer_transfer_def
  transfer_public_transfer_def coin_from_balance_def

lemmas concrete_defs =
  OWNER_def STRANGER_def tx_of_def funded_card_def coin_of_def new_runtime_def
  inactive_card_def full_card_def saturated_card_def

lemma unat_add_u64: "unat a + unat b < 2 ^ 64 \<Longrightarrow> unat (a + b :: u64) = unat a + unat b"
  by (simp add: unat_add_lem [THEN iffD1])

lemma unat_sub_u64: "b \<le> a \<Longrightarrow> unat (a - b :: u64) = unat a - unat b"
  by (simp add: unat_sub)

lemma limit_check_nat:
  "unat a + unat b < 2 ^ 64 \<Longrightarrow> (a + b \<le> (l :: u64)) = (unat a + unat b \<le> unat l)"
  by (simp add: word_le_nat_alt unat_add_u64)

lemma balance_split_enough:
  "v \<le> balance_value b \<Longrightarrow>
     balance_split b v = Inr (Balance (balance_value b - v), Balance v)"
  by (simp add: balance_split_def sub_u64_def word_le_nat_alt)

lemma balance_join_cases:
  "balance_join a b =
     (if unat (balance_value a) + unat (balance_value b) < 2 ^ 64
      then Inr (Balance (balance_value a + balance_value b)) else Inl ArithmeticError)"
  by (simp add: balance_join_def add_u64_def)

section \<open>Each entry function as one case distinction\<close>

text \<open>
  The asserts of an entry function come before its first assignment, and the split
  of the balance cannot fail once the balance check has passed. So each function is
  a chain of checks, each returning the card untouched, followed by one update.
\<close>

lemma deposit_cases:
  "deposit crd payment rt =
     (if tx_sender (ctx rt) \<noteq> owner crd then (Aborted (CardAbort ENotOwner), crd, rt)
      else if \<not> is_active crd then (Aborted (CardAbort EInactiveCard), crd, rt)
      else if 2 ^ 64 \<le> unat (balance_value (balance crd)) + unat (coin_value payment)
        then (Aborted ArithmeticError, crd, rt)
      else (Success,
            crd\<lparr>balance := Balance (balance_value (balance crd) + coin_value payment)\<rparr>,
            rt\<lparr>events := events rt @
                 [Deposit (uid_to_address (uid crd)) (coin_value payment)
                    (balance_value (balance crd) + coin_value payment)]\<rparr>))"
  by (simp add: deposit_def Let_def framework_defs balance_join_cases)

lemma spend_cases:
  "spend crd amount recipient rt =
     (if tx_sender (ctx rt) \<noteq> owner crd then (Aborted (CardAbort ENotOwner), crd, rt)
      else if \<not> is_active crd then (Aborted (CardAbort EInactiveCard), crd, rt)
      else if \<not> amount \<le> balance_value (balance crd)
        then (Aborted (CardAbort EInsufficientBalance), crd, rt)
      else if 2 ^ 64 \<le> unat (amount_spent crd) + unat amount
        then (Aborted ArithmeticError, crd, rt)
      else if \<not> amount_spent crd + amount \<le> spending_limit crd
        then (Aborted (CardAbort EExceedsSpendingLimit), crd, rt)
      else (Success,
            crd\<lparr>balance := Balance (balance_value (balance crd) - amount),
                amount_spent := amount_spent crd + amount\<rparr>,
            rt\<lparr>ctx := (ctx rt)\<lparr>ids_created := ids_created (ctx rt) + 1\<rparr>,
               transfers := transfers rt @
                 [(CoinObject \<lparr>coin_id = UID (derive_id (ctx rt) (ids_created (ctx rt))),
                                coin_balance = Balance amount\<rparr>, recipient)],
               events := events rt @
                 [Spend (uid_to_address (uid crd)) amount
                    (balance_value (balance crd) - amount) (amount_spent crd + amount)]\<rparr>))"
  by (simp add: spend_def Let_def framework_defs balance_split_enough add_u64_def)

lemma spend_to_owner_spend:
  "spend_to_owner crd amount rt = spend crd amount (tx_sender (ctx rt)) rt"
  by (simp add: spend_to_owner_def tx_context_sender_def)

lemma direct_transfer_cases:
  "direct_transfer crd amount recipient rt =
     (if tx_sender (ctx rt) \<noteq> owner crd then (Aborted (CardAbort ENotOwner), crd, rt)
      else if \<not> is_active crd then (Aborted (CardAbort EInactiveCard), crd, rt)
      else if \<not> amount \<le> balance_value (balance crd)
        then (Aborted (CardAbort EInsufficientBalance), crd, rt)
      else (Success,
            crd\<lparr>balance := Balance (balance_value (balance crd) - amount)\<rparr>,
            rt\<lparr>ctx := (ctx rt)\<lparr>ids_created := ids_created (ctx rt) + 1\<rparr>,
               transfers := transfers rt @
                 [(CoinObject \<lparr>coin_id = UID (derive_id (ctx rt) (ids_created (ctx rt))),
                                coin_balance = Balance amount\<rparr>, recipient)],
               events := events rt @
                 [DirectTransfer (uid_to_address (uid crd)) recipient amount
                    (balance_value (balance crd) - amount)]\<rparr>))"
  by (simp add: direct_transfer_def Let_def framework_defs balance_split_enough)

lemma withdraw_cases:
  "withdraw crd amount rt =
     (if tx_sender (ctx rt) \<noteq> owner crd then (Aborted (CardAbort ENotOwner), crd, rt)
      else if \<not> amount \<le> balance_value (balance crd)
        then (Aborted (CardAbort EInsufficientBalance), crd, rt)
      else (Success,
            crd\<lparr>balance := Balance (balance_value (balance crd) - amount)\<rparr>,
            rt\<lparr>ctx := (ctx rt)\<lparr>ids_created := ids_created (ctx rt) + 1\<rparr>,
               transfers := transfers rt @
                 [(CoinObject \<lparr>coin_id = UID (derive_id (ctx rt) (ids_created (ctx rt))),
                                coin_balance = Balance amount\<rparr>, tx_sender (ctx rt))]\<rparr>))"
  by (simp add: withdraw_def Let_def framework_defs balance_split_enough)

lemma toggle_cases:
  "deactivate_card crd rt =
     (if tx_sender (ctx rt) \<noteq> owner crd then (Aborted (CardAbort ENotOwner), crd, rt)
      else (Success, crd\<lparr>is_active := False\<rparr>, rt))"
  "reactivate_card crd rt =
     (if tx_sender (ctx rt) \<noteq> owner crd then (Aborted (CardAbort ENotOwner), crd, rt)
      else (Success, crd\<lparr>is_active := True\<rparr>, rt))"
  "update_spending_limit crd new_limit rt =
     (if tx_sender (ctx rt) \<noteq> owner crd then (Aborted (CardAbort ENotOwner), crd, rt)
      else (Success, crd\<lparr>spending_limit := new_limit\<rparr>, rt))"
  by (simp_all add: deactivate_card_def reactivate_card_def update_spending_limit_def
      Let_def tx_context_sender_def)

lemma create_card_transfers:
  "transfers (create_card L rt) = transfers rt @
     [(CardObject \<lparr>uid = UID (derive_id (ctx rt) (ids_created (ctx rt))),
                    owner = tx_sender (ctx rt), balance = Balance 0, spending_limit = L,
                    amount_spent = 0, is_active = True\<rparr>, tx_sender (ctx rt))]"
  by (simp add: create_card_def Let_def framework_defs)

section \<open>Creation\<close>

text \<open>
  C8. For every caller and every limit \<open>L\<close>, \<open>create_card\<close> hands the caller a new card
  with balance 0, nothing spent, spending limit \<open>L\<close>, active, owned by the caller, and
  emits one \<open>CardCreated\<close> event carrying the card's id, the owner and \<open>L\<close>. The id is
  the fresh address the transaction context derives.
\<close>

theorem create_card_result:
  "create_card L rt =
     rt\<lparr>ctx := (ctx rt)\<lparr>ids_created := ids_created (ctx rt) + 1\<rparr>,
        events := events rt @
          [CardCreated (derive_id (ctx rt) (ids_created (ctx rt))) (tx_sender (ctx rt)) L],
        transfers := transfers rt @
          [(CardObject
              \<lparr>uid = UID (derive_id (ctx rt) (ids_created (ctx rt))),
               owner = tx_sender (ctx rt), balance = Balance 0, spending_limit = L,
               amount_spent = 0, is_active = True\<rparr>,
            tx_sender (ctx rt))]\<rparr>"
  by (simp add: create_card_def Let_def object_new_def fresh_object_address_def
      tx_context_sender_def balance_zero_def event_emit_def transfer_transfer_def)

section \<open>The limit-tracked spend\<close>

text \<open>
  C1, as the module has it. \<open>spend\<close> succeeds exactly when the caller is the owner, the
  card is active, the balance covers the amount and the exact sum of the amount spent
  and the amount is within the limit. On success the amount spent grows by the amount
  and the balance shrinks by it. On every failure the card is as before. The failure is
  \<open>ENotOwner\<close>, \<open>EInactiveCard\<close> or \<open>EInsufficientBalance\<close> for the first of the
  first three checks that fails; when these three pass and the limit check fails, it is
  \<open>EExceedsSpendingLimit\<close> if the sum still fits a \<open>u64\<close>, and the arithmetic error
  of the virtual machine if it does not.
\<close>

theorem spend_ordered_checks:
  "((status_of (spend crd amount recipient rt) = Success) =
      (tx_sender (ctx rt) = owner crd \<and> is_active crd
       \<and> amount \<le> balance_value (balance crd)
       \<and> unat (amount_spent crd) + unat amount \<le> unat (spending_limit crd)))
   \<and> (status_of (spend crd amount recipient rt) = Success \<longrightarrow>
        unat (amount_spent (card_of (spend crd amount recipient rt)))
          = unat (amount_spent crd) + unat amount
        \<and> unat (balance_value (balance (card_of (spend crd amount recipient rt))))
          = unat (balance_value (balance crd)) - unat amount
        \<and> unat amount \<le> unat (balance_value (balance crd)))
   \<and> (status_of (spend crd amount recipient rt) \<noteq> Success \<longrightarrow>
        card_of (spend crd amount recipient rt) = crd)
   \<and> (tx_sender (ctx rt) \<noteq> owner crd \<longrightarrow>
        status_of (spend crd amount recipient rt) = Aborted (CardAbort ENotOwner))
   \<and> (tx_sender (ctx rt) = owner crd \<and> \<not> is_active crd \<longrightarrow>
        status_of (spend crd amount recipient rt) = Aborted (CardAbort EInactiveCard))
   \<and> (tx_sender (ctx rt) = owner crd \<and> is_active crd
        \<and> \<not> amount \<le> balance_value (balance crd) \<longrightarrow>
        status_of (spend crd amount recipient rt)
          = Aborted (CardAbort EInsufficientBalance))
   \<and> (tx_sender (ctx rt) = owner crd \<and> is_active crd
        \<and> amount \<le> balance_value (balance crd)
        \<and> \<not> unat (amount_spent crd) + unat amount \<le> unat (spending_limit crd)
        \<and> unat (amount_spent crd) + unat amount < 2 ^ 64 \<longrightarrow>
        status_of (spend crd amount recipient rt)
          = Aborted (CardAbort EExceedsSpendingLimit))
   \<and> (tx_sender (ctx rt) = owner crd \<and> is_active crd
        \<and> amount \<le> balance_value (balance crd)
        \<and> 2 ^ 64 \<le> unat (amount_spent crd) + unat amount \<longrightarrow>
        status_of (spend crd amount recipient rt) = Aborted ArithmeticError)"
proof -
  have lim: "unat (spending_limit crd) < 2 ^ 64"
    using unsigned_less [of "spending_limit crd"] by simp
  show ?thesis
    unfolding spend_cases
    using lim
    by (auto simp: limit_check_nat unat_add_u64 unat_sub_u64 word_le_nat_alt)
qed

text \<open>
  The theorem at the tests' card: a spend of 200 of 500 under a limit of 1000, a stranger
  calling, an inactive card, 600 of 500, 1001 of 2000 under a limit of 1000, and one unit
  on the card whose counter is full.
\<close>

theorem spend_ordered_checks_witness:
  "status_of (spend funded_card 200 STRANGER (new_runtime (tx_of OWNER))) = Success
   \<and> unat (amount_spent (card_of (spend funded_card 200 STRANGER (new_runtime (tx_of OWNER)))))
       = 200
   \<and> unat (balance_value (balance
         (card_of (spend funded_card 200 STRANGER (new_runtime (tx_of OWNER)))))) = 300
   \<and> status_of (spend funded_card 200 STRANGER (new_runtime (tx_of STRANGER)))
       = Aborted (CardAbort ENotOwner)
   \<and> card_of (spend funded_card 200 STRANGER (new_runtime (tx_of STRANGER))) = funded_card
   \<and> status_of (spend inactive_card 200 STRANGER (new_runtime (tx_of OWNER)))
       = Aborted (CardAbort EInactiveCard)
   \<and> status_of (spend funded_card 600 STRANGER (new_runtime (tx_of OWNER)))
       = Aborted (CardAbort EInsufficientBalance)
   \<and> status_of (spend (funded_card\<lparr>balance := Balance 2000\<rparr>) 1001 STRANGER
         (new_runtime (tx_of OWNER))) = Aborted (CardAbort EExceedsSpendingLimit)
   \<and> status_of (spend saturated_card 1 STRANGER (new_runtime (tx_of OWNER)))
       = Aborted ArithmeticError"
  using spend_ordered_checks [of funded_card 200 STRANGER "new_runtime (tx_of OWNER)"]
    spend_ordered_checks [of funded_card 200 STRANGER "new_runtime (tx_of STRANGER)"]
    spend_ordered_checks [of inactive_card 200 STRANGER "new_runtime (tx_of OWNER)"]
    spend_ordered_checks [of funded_card 600 STRANGER "new_runtime (tx_of OWNER)"]
    spend_ordered_checks [of "funded_card\<lparr>balance := Balance 2000\<rparr>" 1001 STRANGER
      "new_runtime (tx_of OWNER)"]
    spend_ordered_checks [of saturated_card 1 STRANGER "new_runtime (tx_of OWNER)"]
  by (simp add: concrete_defs)

text \<open>
  Where the claim's own wording fails. A card created with the largest limit reaches
  \<open>saturated_card\<close> through four successful calls. There the owner calls \<open>spend\<close> for
  one unit: the caller is the owner, the card is active, the balance covers the unit,
  the sum exceeds the limit, and the call does not report \<open>EExceedsSpendingLimit\<close>; the
  addition aborts first.
\<close>

theorem spend_failure_kind_counterexample:
  "run_calls saturating_calls
      \<lparr>uid = UID 4096, owner = OWNER, balance = Balance 0,
       spending_limit = 0xFFFFFFFFFFFFFFFF, amount_spent = 0, is_active = True\<rparr>
     = Some saturated_card
   \<and> tx_sender (ctx (new_runtime (tx_of OWNER))) = owner saturated_card
   \<and> is_active saturated_card
   \<and> 1 \<le> balance_value (balance saturated_card)
   \<and> \<not> unat (amount_spent saturated_card) + unat (1 :: u64)
         \<le> unat (spending_limit saturated_card)
   \<and> status_of (spend saturated_card 1 STRANGER (new_runtime (tx_of OWNER)))
       = Aborted ArithmeticError
   \<and> Aborted ArithmeticError \<noteq> Aborted (CardAbort EExceedsSpendingLimit)"
  by (simp add: concrete_defs saturating_calls_def deposit_cases spend_cases
      spend_to_owner_spend coin_value_def)

section \<open>Aborts leave the card as it was\<close>

text \<open>
  C2. Whatever the failure, \<open>NotOwner\<close>, \<open>InactiveCard\<close>, \<open>InsufficientBalance\<close>,
  \<open>ExceedsSpendingLimit\<close> or any other, a call of \<open>deposit\<close>, \<open>spend\<close>,
  \<open>spend_to_owner\<close>, \<open>direct_transfer\<close>, \<open>withdraw\<close>, \<open>deactivate_card\<close>,
  \<open>reactivate_card\<close> or \<open>update_spending_limit\<close> that aborts has changed no field of
  the card at the statement where it aborts.
\<close>

theorem abort_leaves_card:
  "(status_of (deposit crd payment rt) = Aborted e \<longrightarrow>
      card_of (deposit crd payment rt) = crd)
   \<and> (status_of (spend crd amount recipient rt) = Aborted e \<longrightarrow>
      card_of (spend crd amount recipient rt) = crd)
   \<and> (status_of (spend_to_owner crd amount rt) = Aborted e \<longrightarrow>
      card_of (spend_to_owner crd amount rt) = crd)
   \<and> (status_of (direct_transfer crd amount recipient rt) = Aborted e \<longrightarrow>
      card_of (direct_transfer crd amount recipient rt) = crd)
   \<and> (status_of (withdraw crd amount rt) = Aborted e \<longrightarrow>
      card_of (withdraw crd amount rt) = crd)
   \<and> (status_of (deactivate_card crd rt) = Aborted e \<longrightarrow>
      card_of (deactivate_card crd rt) = crd)
   \<and> (status_of (reactivate_card crd rt) = Aborted e \<longrightarrow>
      card_of (reactivate_card crd rt) = crd)
   \<and> (status_of (update_spending_limit crd new_limit rt) = Aborted e \<longrightarrow>
      card_of (update_spending_limit crd new_limit rt) = crd)"
  by (simp add: deposit_cases spend_cases spend_to_owner_spend direct_transfer_cases
      withdraw_cases toggle_cases)

text \<open>A stranger calls each of the eight functions on the tests' card.\<close>

theorem abort_leaves_card_witness:
  "status_of (deposit funded_card (coin_of 5) (new_runtime (tx_of STRANGER)))
     = Aborted (CardAbort ENotOwner)
   \<and> card_of (deposit funded_card (coin_of 5) (new_runtime (tx_of STRANGER))) = funded_card
   \<and> card_of (spend funded_card 5 OWNER (new_runtime (tx_of STRANGER))) = funded_card
   \<and> card_of (spend_to_owner funded_card 5 (new_runtime (tx_of STRANGER))) = funded_card
   \<and> card_of (direct_transfer funded_card 5 OWNER (new_runtime (tx_of STRANGER)))
       = funded_card
   \<and> card_of (withdraw funded_card 5 (new_runtime (tx_of STRANGER))) = funded_card
   \<and> card_of (deactivate_card funded_card (new_runtime (tx_of STRANGER))) = funded_card
   \<and> card_of (reactivate_card funded_card (new_runtime (tx_of STRANGER))) = funded_card
   \<and> card_of (update_spending_limit funded_card 5 (new_runtime (tx_of STRANGER)))
       = funded_card"
  using abort_leaves_card [of funded_card "coin_of 5" "new_runtime (tx_of STRANGER)"
      "CardAbort ENotOwner" 5 OWNER 5]
  by (simp add: concrete_defs deposit_cases spend_cases spend_to_owner_spend
      direct_transfer_cases withdraw_cases toggle_cases)

section \<open>The direct transfer\<close>

text \<open>
  C3. \<open>direct_transfer\<close> succeeds exactly when the caller is the owner, the card is
  active and the balance covers the amount. On success the balance has gone down by
  exactly the amount and no other field of the card has changed. The amount spent is
  the same after the call as before it, however the call ends and whatever the amount
  and the recipient.
\<close>

theorem direct_transfer_bypasses_limit:
  "((status_of (direct_transfer crd amount recipient rt) = Success) =
      (tx_sender (ctx rt) = owner crd \<and> is_active crd
       \<and> amount \<le> balance_value (balance crd)))
   \<and> (status_of (direct_transfer crd amount recipient rt) = Success \<longrightarrow>
        unat (balance_value (balance (card_of (direct_transfer crd amount recipient rt))))
          + unat amount = unat (balance_value (balance crd))
        \<and> card_of (direct_transfer crd amount recipient rt)
            = crd\<lparr>balance := balance (card_of (direct_transfer crd amount recipient rt))\<rparr>)
   \<and> amount_spent (card_of (direct_transfer crd amount recipient rt)) = amount_spent crd"
  by (simp add: direct_transfer_cases unat_sub_u64 word_le_nat_alt)

theorem direct_transfer_bypasses_limit_witness:
  "status_of (direct_transfer funded_card 200 STRANGER (new_runtime (tx_of OWNER))) = Success
   \<and> unat (balance_value (balance
         (card_of (direct_transfer funded_card 200 STRANGER (new_runtime (tx_of OWNER))))))
       + 200 = 500
   \<and> amount_spent (card_of (direct_transfer funded_card 200 STRANGER
         (new_runtime (tx_of OWNER)))) = 0"
  using direct_transfer_bypasses_limit [of funded_card 200 STRANGER "new_runtime (tx_of OWNER)"]
  by (simp add: concrete_defs)

section \<open>Which functions look at the activity flag\<close>

text \<open>
  C4, as the module has it. For the owner, \<open>withdraw\<close> (when the balance covers the
  amount), \<open>update_spending_limit\<close>, \<open>deactivate_card\<close> and \<open>reactivate_card\<close>
  succeed whether the card is active or not. \<open>deposit\<close>, \<open>spend\<close>, \<open>spend_to_owner\<close>
  and \<open>direct_transfer\<close> need an active card: called by the owner on an inactive card,
  each aborts with \<open>EInactiveCard\<close>.
\<close>

theorem activity_gates:
  "tx_sender (ctx rt) = owner crd \<Longrightarrow>
     (amount \<le> balance_value (balance crd) \<longrightarrow> status_of (withdraw crd amount rt) = Success)
     \<and> status_of (update_spending_limit crd new_limit rt) = Success
     \<and> status_of (deactivate_card crd rt) = Success
     \<and> status_of (reactivate_card crd rt) = Success
     \<and> (\<not> is_active crd \<longrightarrow>
          status_of (deposit crd payment rt) = Aborted (CardAbort EInactiveCard)
          \<and> status_of (spend crd amount recipient rt) = Aborted (CardAbort EInactiveCard)
          \<and> status_of (spend_to_owner crd amount rt) = Aborted (CardAbort EInactiveCard)
          \<and> status_of (direct_transfer crd amount recipient rt)
              = Aborted (CardAbort EInactiveCard))"
  by (simp add: deposit_cases spend_cases spend_to_owner_spend direct_transfer_cases
      withdraw_cases toggle_cases)

theorem activity_gates_witness:
  "status_of (withdraw inactive_card 200 (new_runtime (tx_of OWNER))) = Success
   \<and> status_of (update_spending_limit inactive_card 2000 (new_runtime (tx_of OWNER))) = Success
   \<and> status_of (deactivate_card inactive_card (new_runtime (tx_of OWNER))) = Success
   \<and> status_of (reactivate_card inactive_card (new_runtime (tx_of OWNER))) = Success
   \<and> status_of (deposit inactive_card (coin_of 5) (new_runtime (tx_of OWNER)))
       = Aborted (CardAbort EInactiveCard)
   \<and> status_of (spend inactive_card 200 STRANGER (new_runtime (tx_of OWNER)))
       = Aborted (CardAbort EInactiveCard)
   \<and> status_of (spend_to_owner inactive_card 200 (new_runtime (tx_of OWNER)))
       = Aborted (CardAbort EInactiveCard)
   \<and> status_of (direct_transfer inactive_card 200 STRANGER (new_runtime (tx_of OWNER)))
       = Aborted (CardAbort EInactiveCard)"
  using activity_gates [of "new_runtime (tx_of OWNER)" inactive_card 200 2000 "coin_of 5"
      STRANGER]
  by (simp add: concrete_defs)

text \<open>
  Where the claim's own wording fails: the owner calls \<open>direct_transfer\<close> for 200 on
  an inactive card that holds 500, and the call aborts with \<open>EInactiveCard\<close>.
\<close>

theorem direct_transfer_inactive_counterexample:
  "tx_sender (ctx (new_runtime (tx_of OWNER))) = owner inactive_card
   \<and> 200 \<le> balance_value (balance inactive_card)
   \<and> \<not> is_active inactive_card
   \<and> status_of (direct_transfer inactive_card 200 STRANGER (new_runtime (tx_of OWNER)))
       = Aborted (CardAbort EInactiveCard)"
  by (simp add: concrete_defs direct_transfer_def Let_def tx_context_sender_def)

section \<open>The balance is what came in less what went out\<close>

lemma apply_call_balance_nat:
  assumes "apply_call x crd rt = (Success, crd', rt')"
  shows "unat (balance_value (balance crd')) + moved_out x
          = unat (balance_value (balance crd)) + deposited x"
  using assms
  by (cases x)
     (auto simp: deposit_cases spend_cases spend_to_owner_spend direct_transfer_cases
        withdraw_cases toggle_cases unat_add_u64 unat_sub_u64 word_le_nat_alt
        split: if_splits)

lemma apply_call_balance:
  assumes "apply_call x crd rt = (Success, crd', rt')"
  shows "int (unat (balance_value (balance crd')))
          = int (unat (balance_value (balance crd))) + int (deposited x) - int (moved_out x)"
proof -
  have "int (unat (balance_value (balance crd')) + moved_out x)
          = int (unat (balance_value (balance crd)) + deposited x)"
    by (simp only: apply_call_balance_nat [OF assms])
  then show ?thesis by simp
qed

lemma run_calls_balance:
  "run_calls cs crd = Some crd' \<Longrightarrow>
     int (unat (balance_value (balance crd')))
       = int (unat (balance_value (balance crd)))
         + (\<Sum>x\<leftarrow>map snd cs. int (deposited x)) - (\<Sum>x\<leftarrow>map snd cs. int (moved_out x))"
proof (induction cs arbitrary: crd)
  case Nil
  then show ?case by simp
next
  case (Cons cx cs)
  obtain c x where cx: "cx = (c, x)" by (cases cx)
  from Cons.prems cx obtain mid rt' where
    step: "apply_call x crd (new_runtime c) = (Success, mid, rt')" and
    rest: "run_calls cs mid = Some crd'"
    by (auto split: prod.splits status.splits)
  from apply_call_balance [OF step] Cons.IH [OF rest] cx
  show ?case by simp
qed

text \<open>
  C5. Take the card that \<open>create_card\<close> hands to its caller and any sequence of calls
  on it that all succeed, toggles and limit updates among them in any order. The
  balance of the card at the end is the sum of the amounts deposited less the sum of
  the amounts moved out by \<open>spend\<close>, \<open>spend_to_owner\<close>, \<open>direct_transfer\<close> and
  \<open>withdraw\<close>.
\<close>

theorem balance_is_net_flow:
  assumes "last (transfers (create_card L rt)) = (CardObject crd, a)"
    and "run_calls cs crd = Some crd'"
  shows "int (unat (balance_value (balance crd')))
          = (\<Sum>x\<leftarrow>map snd cs. int (deposited x)) - (\<Sum>x\<leftarrow>map snd cs. int (moved_out x))"
proof -
  from assms(1) have "balance crd = Balance 0"
    by (auto simp: create_card_transfers)
  with run_calls_balance [OF assms(2)] show ?thesis by simp
qed

text \<open>
  A card created with limit 1000: 500 in, 200 spent, deactivated, 100 withdrawn,
  reactivated, the limit lowered to 100, 50 transferred directly; 150 are left.
\<close>

theorem balance_is_net_flow_witness:
  "last (transfers (create_card 1000 (new_runtime (tx_of OWNER))))
     = (CardObject
          \<lparr>uid = UID 4096, owner = OWNER, balance = Balance 0, spending_limit = 1000,
           amount_spent = 0, is_active = True\<rparr>, OWNER)
   \<and> run_calls example_calls
        \<lparr>uid = UID 4096, owner = OWNER, balance = Balance 0, spending_limit = 1000,
         amount_spent = 0, is_active = True\<rparr>
       = Some \<lparr>uid = UID 4096, owner = OWNER, balance = Balance 150, spending_limit = 100,
               amount_spent = 200, is_active = True\<rparr>
   \<and> int (unat (150 :: u64))
       = (\<Sum>x\<leftarrow>map snd example_calls. int (deposited x))
         - (\<Sum>x\<leftarrow>map snd example_calls. int (moved_out x))"
proof -
  have made: "last (transfers (create_card 1000 (new_runtime (tx_of OWNER))))
     = (CardObject
          \<lparr>uid = UID 4096, owner = OWNER, balance = Balance 0, spending_limit = 1000,
           amount_spent = 0, is_active = True\<rparr>, OWNER)"
    by (simp add: create_card_transfers concrete_defs)
  have ran: "run_calls example_calls
        \<lparr>uid = UID 4096, owner = OWNER, balance = Balance 0, spending_limit = 1000,
         amount_spent = 0, is_active = True\<rparr>
       = Some \<lparr>uid = UID 4096, owner = OWNER, balance = Balance 150, spending_limit = 100,
               amount_spent = 200, is_active = True\<rparr>"
    by (simp add: example_calls_def concrete_defs deposit_cases spend_cases
        direct_transfer_cases withdraw_cases toggle_cases coin_value_def)
  from balance_is_net_flow [OF made ran] made ran show ?thesis by simp
qed

section \<open>Withdrawal\<close>

text \<open>
  C6. \<open>withdraw\<close> succeeds exactly when the caller is the owner and the balance covers
  the amount; setting the activity flag either way does not change how the call ends.
  On success the balance has gone down by the amount, no other field of the card, the
  amount spent among them, has changed, and no event has been emitted.
\<close>

theorem withdraw_ignores_activity:
  "((status_of (withdraw crd amount rt) = Success) =
      (tx_sender (ctx rt) = owner crd \<and> amount \<le> balance_value (balance crd)))
   \<and> status_of (withdraw (crd\<lparr>is_active := b\<rparr>) amount rt)
       = status_of (withdraw crd amount rt)
   \<and> (status_of (withdraw crd amount rt) = Success \<longrightarrow>
        unat (balance_value (balance (card_of (withdraw crd amount rt)))) + unat amount
          = unat (balance_value (balance crd))
        \<and> card_of (withdraw crd amount rt)
            = crd\<lparr>balance := balance (card_of (withdraw crd amount rt))\<rparr>
        \<and> events (runtime_of (withdraw crd amount rt)) = events rt)"
  by (simp add: withdraw_cases unat_sub_u64 word_le_nat_alt)

theorem withdraw_ignores_activity_witness:
  "status_of (withdraw inactive_card 200 (new_runtime (tx_of OWNER))) = Success
   \<and> unat (balance_value (balance (card_of (withdraw inactive_card 200
         (new_runtime (tx_of OWNER)))))) + 200 = 500
   \<and> events (runtime_of (withdraw inactive_card 200 (new_runtime (tx_of OWNER)))) = []"
  using withdraw_ignores_activity [of inactive_card 200 "new_runtime (tx_of OWNER)"]
  by (simp add: concrete_defs)

section \<open>Amounts never wrap\<close>

text \<open>
  C7. When the amount spent plus the amount does not fit a \<open>u64\<close>, \<open>spend\<close> aborts and
  the card is as before; a deposit that would take the balance past the largest \<open>u64\<close>
  aborts likewise. Every successful call moves exactly the amount asked for, counted
  in natural numbers: a deposit adds the value of the coin to the balance; \<open>spend\<close>,
  \<open>spend_to_owner\<close>, \<open>direct_transfer\<close> and \<open>withdraw\<close> take the amount off the
  balance and hand one coin of exactly that amount to the recipient (the caller, for
  \<open>spend_to_owner\<close> and \<open>withdraw\<close>); \<open>spend\<close> and \<open>spend_to_owner\<close> add the amount
  to the amount spent, and \<open>spend_to_owner\<close> aborts on the same overflow as \<open>spend\<close>.
\<close>

theorem checked_amounts:
  "(2 ^ 64 \<le> unat (amount_spent crd) + unat amount \<longrightarrow>
      status_of (spend crd amount recipient rt) \<noteq> Success
      \<and> card_of (spend crd amount recipient rt) = crd)
   \<and> (2 ^ 64 \<le> unat (balance_value (balance crd)) + unat (coin_value payment) \<longrightarrow>
      status_of (deposit crd payment rt) \<noteq> Success
      \<and> card_of (deposit crd payment rt) = crd)
   \<and> (status_of (deposit crd payment rt) = Success \<longrightarrow>
      unat (balance_value (balance (card_of (deposit crd payment rt))))
        = unat (balance_value (balance crd)) + unat (coin_value payment))
   \<and> (status_of (spend crd amount recipient rt) = Success \<longrightarrow>
      unat (balance_value (balance (card_of (spend crd amount recipient rt)))) + unat amount
        = unat (balance_value (balance crd))
      \<and> unat (amount_spent (card_of (spend crd amount recipient rt)))
        = unat (amount_spent crd) + unat amount
      \<and> transfers (runtime_of (spend crd amount recipient rt)) = transfers rt @
          [(CoinObject \<lparr>coin_id = UID (derive_id (ctx rt) (ids_created (ctx rt))),
                         coin_balance = Balance amount\<rparr>, recipient)])
   \<and> (status_of (direct_transfer crd amount recipient rt) = Success \<longrightarrow>
      unat (balance_value (balance (card_of (direct_transfer crd amount recipient rt))))
        + unat amount = unat (balance_value (balance crd))
      \<and> transfers (runtime_of (direct_transfer crd amount recipient rt)) = transfers rt @
          [(CoinObject \<lparr>coin_id = UID (derive_id (ctx rt) (ids_created (ctx rt))),
                         coin_balance = Balance amount\<rparr>, recipient)])
   \<and> (status_of (withdraw crd amount rt) = Success \<longrightarrow>
      unat (balance_value (balance (card_of (withdraw crd amount rt)))) + unat amount
        = unat (balance_value (balance crd))
      \<and> transfers (runtime_of (withdraw crd amount rt)) = transfers rt @
          [(CoinObject \<lparr>coin_id = UID (derive_id (ctx rt) (ids_created (ctx rt))),
                         coin_balance = Balance amount\<rparr>, tx_sender (ctx rt))])
   \<and> (2 ^ 64 \<le> unat (amount_spent crd) + unat amount \<longrightarrow>
      status_of (spend_to_owner crd amount rt) \<noteq> Success
      \<and> card_of (spend_to_owner crd amount rt) = crd)
   \<and> (status_of (spend_to_owner crd amount rt) = Success \<longrightarrow>
      unat (balance_value (balance (card_of (spend_to_owner crd amount rt)))) + unat amount
        = unat (balance_value (balance crd))
      \<and> unat (amount_spent (card_of (spend_to_owner crd amount rt)))
        = unat (amount_spent crd) + unat amount
      \<and> transfers (runtime_of (spend_to_owner crd amount rt)) = transfers rt @
          [(CoinObject \<lparr>coin_id = UID (derive_id (ctx rt) (ids_created (ctx rt))),
                         coin_balance = Balance amount\<rparr>, tx_sender (ctx rt))])"
  by (simp add: deposit_cases spend_cases spend_to_owner_spend direct_transfer_cases
      withdraw_cases unat_add_u64 unat_sub_u64 word_le_nat_alt)

text \<open>
  One unit on the card whose counter is full, by \<open>spend\<close> and by \<open>spend_to_owner\<close>, one
  unit into the card whose balance is full, and the five transfers on the tests' card.
\<close>

theorem checked_amounts_witness:
  "status_of (spend saturated_card 1 STRANGER (new_runtime (tx_of OWNER))) \<noteq> Success
   \<and> card_of (spend saturated_card 1 STRANGER (new_runtime (tx_of OWNER))) = saturated_card
   \<and> status_of (deposit full_card (coin_of 1) (new_runtime (tx_of OWNER))) \<noteq> Success
   \<and> card_of (deposit full_card (coin_of 1) (new_runtime (tx_of OWNER))) = full_card
   \<and> unat (balance_value (balance (card_of (deposit funded_card (coin_of 1)
         (new_runtime (tx_of OWNER)))))) = 501
   \<and> unat (balance_value (balance (card_of (spend funded_card 200 STRANGER
         (new_runtime (tx_of OWNER)))))) + 200 = 500
   \<and> unat (balance_value (balance (card_of (direct_transfer funded_card 200 STRANGER
         (new_runtime (tx_of OWNER)))))) + 200 = 500
   \<and> unat (balance_value (balance (card_of (withdraw funded_card 200
         (new_runtime (tx_of OWNER)))))) + 200 = 500
   \<and> status_of (spend_to_owner saturated_card 1 (new_runtime (tx_of OWNER))) \<noteq> Success
   \<and> card_of (spend_to_owner saturated_card 1 (new_runtime (tx_of OWNER))) = saturated_card
   \<and> status_of (spend_to_owner funded_card 200 (new_runtime (tx_of OWNER))) = Success
   \<and> unat (balance_value (balance (card_of (spend_to_owner funded_card 200
         (new_runtime (tx_of OWNER)))))) + 200 = 500
   \<and> unat (amount_spent (card_of (spend_to_owner funded_card 200
         (new_runtime (tx_of OWNER))))) = 200
   \<and> transfers (runtime_of (spend_to_owner funded_card 200 (new_runtime (tx_of OWNER))))
       = [(CoinObject \<lparr>coin_id = UID 4096, coin_balance = Balance 200\<rparr>, OWNER)]"
  using checked_amounts [of saturated_card 1 STRANGER "new_runtime (tx_of OWNER)" "coin_of 1"]
    checked_amounts [of full_card 1 STRANGER "new_runtime (tx_of OWNER)" "coin_of 1"]
    checked_amounts [of funded_card 200 STRANGER "new_runtime (tx_of OWNER)" "coin_of 1"]
  by (simp add: concrete_defs coin_value_def deposit_cases spend_cases spend_to_owner_spend
      direct_transfer_cases withdraw_cases)

section \<open>The activity toggles\<close>

text \<open>
  C9. For the owner, \<open>deactivate_card\<close> and \<open>reactivate_card\<close> always succeed and set
  the activity flag to false and to true; on a card that is already inactive, or
  already active, the call succeeds and returns the card unchanged.
\<close>

theorem toggles_idempotent:
  "tx_sender (ctx rt) = owner crd \<Longrightarrow>
     deactivate_card crd rt = (Success, crd\<lparr>is_active := False\<rparr>, rt)
     \<and> reactivate_card crd rt = (Success, crd\<lparr>is_active := True\<rparr>, rt)
     \<and> (\<not> is_active crd \<longrightarrow> deactivate_card crd rt = (Success, crd, rt))
     \<and> (is_active crd \<longrightarrow> reactivate_card crd rt = (Success, crd, rt))"
  by (simp add: toggle_cases)

theorem toggles_idempotent_witness:
  "deactivate_card funded_card (new_runtime (tx_of OWNER))
     = (Success, inactive_card, new_runtime (tx_of OWNER))
   \<and> deactivate_card inactive_card (new_runtime (tx_of OWNER))
     = (Success, inactive_card, new_runtime (tx_of OWNER))
   \<and> reactivate_card inactive_card (new_runtime (tx_of OWNER))
     = (Success, funded_card, new_runtime (tx_of OWNER))
   \<and> reactivate_card funded_card (new_runtime (tx_of OWNER))
     = (Success, funded_card, new_runtime (tx_of OWNER))"
  using toggles_idempotent [of "new_runtime (tx_of OWNER)" funded_card]
    toggles_idempotent [of "new_runtime (tx_of OWNER)" inactive_card]
  by (simp add: concrete_defs)

section \<open>Events\<close>

text \<open>
  C10. A successful \<open>deposit\<close>, \<open>spend\<close> or \<open>direct_transfer\<close> appends exactly one
  event. Its \<open>new_balance\<close> is the balance of the card after the call; the amount of a
  \<open>Deposit\<close> is the value of the coin paid in; the \<open>total_spent\<close> of a \<open>Spend\<close> is the
  amount spent after the call.
\<close>

theorem events_match_state:
  "(status_of (deposit crd payment rt) = Success \<longrightarrow>
      events (runtime_of (deposit crd payment rt)) = events rt @
        [Deposit (uid_to_address (uid crd)) (coin_value payment)
           (balance_value (balance (card_of (deposit crd payment rt))))])
   \<and> (status_of (spend crd amount recipient rt) = Success \<longrightarrow>
      events (runtime_of (spend crd amount recipient rt)) = events rt @
        [Spend (uid_to_address (uid crd)) amount
           (balance_value (balance (card_of (spend crd amount recipient rt))))
           (amount_spent (card_of (spend crd amount recipient rt)))])
   \<and> (status_of (direct_transfer crd amount recipient rt) = Success \<longrightarrow>
      events (runtime_of (direct_transfer crd amount recipient rt)) = events rt @
        [DirectTransfer (uid_to_address (uid crd)) recipient amount
           (balance_value (balance (card_of (direct_transfer crd amount recipient rt))))])"
  by (simp add: deposit_cases spend_cases direct_transfer_cases)

theorem events_match_state_witness:
  "events (runtime_of (deposit funded_card (coin_of 100) (new_runtime (tx_of OWNER))))
     = [Deposit 0xC0 100 600]
   \<and> events (runtime_of (spend funded_card 200 STRANGER (new_runtime (tx_of OWNER))))
     = [Spend 0xC0 200 300 200]
   \<and> events (runtime_of (direct_transfer funded_card 200 STRANGER (new_runtime (tx_of OWNER))))
     = [DirectTransfer 0xC0 STRANGER 200 300]"
  using events_match_state [of funded_card "coin_of 100" "new_runtime (tx_of OWNER)" 200 STRANGER]
  by (simp add: concrete_defs coin_value_def deposit_cases spend_cases direct_transfer_cases)

end
